theory Spec2Isabelle
  imports Main
begin

section \<open>Ultra Multiplexer: an embedding of \<^verbatim>\<open>main.go\<close>\<close>

text \<open>
  The Go program serves HTTP/1.1 and gRPC on one TCP port. Its orchestration code
  (\<^verbatim>\<open>Initialize\<close>, \<^verbatim>\<open>Start\<close>, \<^verbatim>\<open>Stop\<close>) and its handlers are
  translated function by function. Every function that mutates the
  \<^verbatim>\<open>UltraMultiplexer\<close> struct takes the struct and returns the updated one. What the
  operating system, the network and the libraries decide (whether the port can be bound,
  whether a probe answers, whether a dial or a call succeeds) is read from an environment
  record, so that every run of the program is the model run at some environment.
  Log lines are not modelled.
\<close>

subsection \<open>Errors\<close>

text \<open>A Go \<^verbatim>\<open>error\<close> is a value with a message; a nil error is \<open>None\<close>.\<close>

datatype error = Error string

fun Error_msg :: "error \<Rightarrow> string" where
  "Error_msg (Error s) = s"

text \<open>\<^verbatim>\<open>fmt.Errorf(prefix + "%v", err)\<close>\<close>

definition Errorf :: "string \<Rightarrow> error \<Rightarrow> error" where
  "Errorf prefix err = Error (prefix @ Error_msg err)"

subsection \<open>The connection multiplexer\<close>

text \<open>
  Modelled from the spec: the multiplexing listener (the \<^verbatim>\<open>cmux\<close> package) is not
  among the source files; only its calls in \<^verbatim>\<open>Initialize\<close> are. Following sections
  4.2, 4.3 and 8 of the specification: a matcher is a predicate on a connection,
  \<open>Match\<close> appends to the ordered matcher sequence and hands out a new virtual listener,
  and classification evaluates the registered entries in registration order, stopping at
  the first match; a connection no entry accepts is closed (\<open>None\<close>). The gRPC matcher
  accepts a connection that begins with the HTTP/2 preface and carries the given header
  field; the catch-all accepts everything.
\<close>

datatype matcher = HTTP2MatchHeaderFieldSendSettings string string | Any

record connection =
  http2_preface :: bool
  header_fields :: "(string \<times> string) list"

fun matches :: "matcher \<Rightarrow> connection \<Rightarrow> bool" where
  "matches Any c = True"
| "matches (HTTP2MatchHeaderFieldSendSettings name v) c =
     (http2_preface c \<and> (name, v) \<in> set (header_fields c))"

text \<open>A virtual listener is named by its position in the order of registration.\<close>

type_synonym vlistener = nat

record cmux =
  sls :: "(matcher list \<times> vlistener) list"

definition cmux_New :: cmux where
  "cmux_New = \<lparr>sls = []\<rparr>"

definition Match :: "matcher list \<Rightarrow> cmux \<Rightarrow> vlistener \<times> cmux" where
  "Match ms m = (let l = length (sls m) in (l, m\<lparr>sls := sls m @ [(ms, l)]\<rparr>))"

fun classify :: "(matcher list \<times> vlistener) list \<Rightarrow> connection \<Rightarrow> vlistener option" where
  "classify [] c = None"
| "classify ((ms, l) # rest) c =
     (if list_ex (\<lambda>s. matches s c) ms then Some l else classify rest c)"

subsection \<open>The multiplexer struct and its instrumentation\<close>

text \<open>
  A field that holds a closable component is \<open>None\<close> while it is nil and otherwise
  says whether the component is still open.
\<close>

datatype status = Open | Closed

text \<open>
  \<^verbatim>\<open>sync.RWMutex\<close>: whether the write lock is held and how many read locks are.
  Runs are sequential, so waiting for a lock that another goroutine holds is not modelled.
\<close>

record rwmutex =
  writer :: bool
  readers :: nat

datatype task = HTTP_Serve vlistener | GRPC_Serve vlistener | Mux_Serve

datatype event =
    Go task
  | HTTP_Probe nat bool
  | GRPC_Probe nat bool
  | Sleep nat
  | Dial_Client bool
  | Set_muxStarted
  | Set_grpcClient
  | Set_serverReady
  | Close_grpcConn
  | Close_httpServer
  | Stop_grpcServer
  | Close_listener
  | Call_SayHello string

text \<open>
  Each effect is recorded, in program order, with the value the write lock and the
  \<^verbatim>\<open>serverReady\<close> flag had at that point.
\<close>

record entry =
  ev :: event
  held :: bool
  ready :: bool

record UltraMultiplexer =
  port :: string
  listener :: "status option"
  mux :: "cmux option"
  httpServer :: "status option"
  grpcServer :: "status option"
  httpClient :: "nat option"
  grpcClient :: "string option"
  grpcConn :: "status option"
  mu :: rwmutex
  serverReady :: bool
  muxStarted :: bool
  trace :: "entry list"

definition stamp :: "UltraMultiplexer \<Rightarrow> event \<Rightarrow> entry" where
  "stamp um e = \<lparr>ev = e, held = writer (mu um), ready = serverReady um\<rparr>"

definition emit :: "event \<Rightarrow> UltraMultiplexer \<Rightarrow> UltraMultiplexer" where
  "emit e um = um\<lparr>trace := trace um @ [stamp um e]\<rparr>"

definition Lock :: "UltraMultiplexer \<Rightarrow> UltraMultiplexer" where
  "Lock um = um\<lparr>mu := (mu um)\<lparr>writer := True\<rparr>\<rparr>"

definition Unlock :: "UltraMultiplexer \<Rightarrow> UltraMultiplexer" where
  "Unlock um = um\<lparr>mu := (mu um)\<lparr>writer := False\<rparr>\<rparr>"

definition RLock :: "UltraMultiplexer \<Rightarrow> UltraMultiplexer" where
  "RLock um = um\<lparr>mu := (mu um)\<lparr>readers := Suc (readers (mu um))\<rparr>\<rparr>"

definition RUnlock :: "UltraMultiplexer \<Rightarrow> UltraMultiplexer" where
  "RUnlock um = um\<lparr>mu := (mu um)\<lparr>readers := readers (mu um) - 1\<rparr>\<rparr>"

subsection \<open>The gRPC service\<close>

text \<open>\<^verbatim>\<open>fmt.Sprintf("Hello %s from Ultra Multiplexer!", req.Name)\<close>\<close>

definition SayHello :: "string \<Rightarrow> string \<times> error option" where
  "SayHello name = (''Hello '' @ name @ '' from Ultra Multiplexer!'', None)"

text \<open>
  Go strings are byte sequences that hold UTF-8. Decoding follows
  \<^verbatim>\<open>utf8.DecodeRuneInString\<close>, with its tables written out: the first byte gives the
  length of the sequence and the range of the second byte, every further byte is a
  continuation byte, and whatever is not a well-formed sequence decodes to
  \<^verbatim>\<open>RuneError\<close> of width 1. A rune is a natural number.
\<close>

definition RuneError :: nat where
  "RuneError = 0xFFFD"

definition continuation :: "nat \<Rightarrow> bool" where
  "continuation b = (0x80 \<le> b \<and> b \<le> 0xBF)"

definition DecodeRune :: "nat list \<Rightarrow> nat \<times> nat" where
  "DecodeRune s =
     (if length s < 1 then (RuneError, 0)
      else
        (let s0 = s ! 0 in
         if s0 < 0x80 then (s0, 1)
         else if s0 < 0xC2 \<or> 0xF4 < s0 then (RuneError, 1)
         else
           (let sz = (if s0 < 0xE0 then 2 else if s0 < 0xF0 then 3 else (4::nat));
                lo = (if s0 = 0xE0 then 0xA0 else if s0 = 0xF0 then 0x90 else (0x80::nat));
                hi = (if s0 = 0xED then 0x9F else if s0 = 0xF4 then 0x8F else (0xBF::nat))
            in if length s < sz then (RuneError, 1)
               else
                 (let s1 = s ! 1 in
                  if s1 < lo \<or> hi < s1 then (RuneError, 1)
                  else if sz \<le> 2 then ((s0 mod 32) * 64 + s1 mod 64, 2)
                  else
                    (let s2 = s ! 2 in
                     if \<not> continuation s2 then (RuneError, 1)
                     else if sz \<le> 3 then ((s0 mod 16) * 4096 + (s1 mod 64) * 64 + s2 mod 64, 3)
                     else
                       (let s3 = s ! 3 in
                        if \<not> continuation s3 then (RuneError, 1)
                        else ((s0 mod 8) * 262144 + (s1 mod 64) * 4096 + (s2 mod 64) * 64
                              + s3 mod 64, 4)))))))"

text \<open>The runes of a string, as \<^verbatim>\<open>for _, c := range s\<close> yields them.\<close>

function runes :: "nat list \<Rightarrow> nat list" where
  "runes [] = []"
| "runes (b # bs) = fst (DecodeRune (b # bs)) # runes (drop (snd (DecodeRune (b # bs))) (b # bs))"
  by pat_completeness auto
termination
proof (relation "measure length")
  show "wf (measure length)" by simp
next
  fix b :: nat and bs :: "nat list"
  have "1 \<le> snd (DecodeRune (b # bs))" by (simp add: DecodeRune_def Let_def)
  then show "(drop (snd (DecodeRune (b # bs))) (b # bs), b # bs) \<in> measure length"
    by simp
qed

declare runes.simps [simp del]

text \<open>\<^verbatim>\<open>utf8.AppendRune\<close>: surrogates and runes beyond U+10FFFF are written as \<^verbatim>\<open>RuneError\<close>.\<close>

definition EncodeRune :: "nat \<Rightarrow> nat list" where
  "EncodeRune r =
     (if r \<le> 0x7F then [r]
      else if r \<le> 0x7FF then [0xC0 + r div 64, 0x80 + r mod 64]
      else if 0x10FFFF < r \<or> (0xD800 \<le> r \<and> r \<le> 0xDFFF) then [0xEF, 0xBF, 0xBD]
      else if r \<le> 0xFFFF then [0xE0 + r div 4096, 0x80 + (r div 64) mod 64, 0x80 + r mod 64]
      else [0xF0 + r div 262144, 0x80 + (r div 4096) mod 64, 0x80 + (r div 64) mod 64,
            0x80 + r mod 64])"




text \<open>
  \<^verbatim>\<open>unicode.ToUpper\<close>: a rune up to \<^verbatim>\<open>MaxASCII\<close> is decided on the spot, a
  to z losing 32; any other rune is looked up in the case table of package
  \<^verbatim>\<open>unicode\<close>. The table is the parameter \<open>upper_table\<close>; it is asked for
  runes above 0x7F only.
\<close>

definition unicode_ToUpper :: "(nat \<Rightarrow> nat) \<Rightarrow> nat \<Rightarrow> nat" where
  "unicode_ToUpper upper_table r =
     (if r \<le> 0x7F then (if 97 \<le> r \<and> r \<le> 122 then r - 32 else r) else upper_table r)"

text \<open>
  \<^verbatim>\<open>strings.Map\<close>: the runes of the string, each mapped and encoded again. (A mapping
  that returns a negative rune drops the character; \<^verbatim>\<open>unicode.ToUpper\<close> never does.)
\<close>

definition strings_Map :: "(nat \<Rightarrow> nat) \<Rightarrow> string \<Rightarrow> string" where
  "strings_Map mapping s =
     map char_of (concat (map (\<lambda>c. EncodeRune (mapping c)) (runes (map of_char s))))"

text \<open>
  \<^verbatim>\<open>strings.ToUpper\<close>: a string of ASCII bytes is returned as it is when it has no
  letter a to z, and otherwise with each such byte lowered by 32; any other string goes
  through \<^verbatim>\<open>Map(unicode.ToUpper, s)\<close>.
\<close>

definition upper_byte :: "char \<Rightarrow> char" where
  "upper_byte c =
     (if (97::nat) \<le> of_char c \<and> of_char c \<le> (122::nat) then char_of (of_char c - (32::nat)) else c)"

definition isASCII :: "string \<Rightarrow> bool" where
  "isASCII s = list_all (\<lambda>c. of_char c < (128::nat)) s"

definition hasLower :: "string \<Rightarrow> bool" where
  "hasLower s = list_ex (\<lambda>c. (97::nat) \<le> of_char c \<and> of_char c \<le> (122::nat)) s"

definition ToUpper :: "(nat \<Rightarrow> nat) \<Rightarrow> string \<Rightarrow> string" where
  "ToUpper upper_table s =
     (if isASCII s then (if \<not> hasLower s then s else map upper_byte s)
      else strings_Map (unicode_ToUpper upper_table) s)"

definition ProcessData :: "(nat \<Rightarrow> nat) \<Rightarrow> string \<Rightarrow> string \<times> error option" where
  "ProcessData upper_table data = (let processed = ToUpper upper_table data in (processed, None))"

text \<open>
  The upper-case transformation of a string, in the words of the specification: every
  character of the string replaced by its upper-case form. A character is a rune of the
  UTF-8 text and the result is UTF-8 again.
\<close>

definition uppercase :: "(nat \<Rightarrow> nat) \<Rightarrow> string \<Rightarrow> string" where
  "uppercase upper_table data =
     map char_of
       (concat (map (\<lambda>r. EncodeRune (unicode_ToUpper upper_table r)) (runes (map of_char data))))"

definition is_lower :: "char \<Rightarrow> bool" where
  "is_lower c = ((97::nat) \<le> of_char c \<and> of_char c \<le> (122::nat))"

text \<open>One entry of the case table, to run examples: U+00E9 has the capital U+00C9.\<close>

definition table_excerpt :: "nat \<Rightarrow> nat" where
  "table_excerpt r = (if r = 0xE9 then 0xC9 else r)"

subsection \<open>HTTP requests and responses\<close>

record request =
  Method :: string
  Path :: string
  Query :: "(string \<times> string) list"

text \<open>
  A response body is plain text or, where the handler encodes a map with
  \<^verbatim>\<open>json.NewEncoder\<close>, the JSON object with these members (the encoder writes the
  keys of a map in sorted order).
\<close>

datatype body = Text string | Json "(string \<times> string) list"

record response =
  StatusCode :: nat
  Header :: "(string \<times> string) list"
  Body :: body

text \<open>\<^verbatim>\<open>r.URL.Query().Get(key)\<close>: the first value of the key, or the empty string.\<close>

definition Query_Get :: "(string \<times> string) list \<Rightarrow> string \<Rightarrow> string" where
  "Query_Get q key = (case map_of q key of None \<Rightarrow> [] | Some v \<Rightarrow> v)"

text \<open>\<^verbatim>\<open>http.Error(w, msg, code)\<close>\<close>

definition http_Error :: "string \<Rightarrow> nat \<Rightarrow> response" where
  "http_Error msg code =
     \<lparr>StatusCode = code,
      Header = [(''Content-Type'', ''text/plain; charset=utf-8''),
                (''X-Content-Type-Options'', ''nosniff'')],
      Body = Text (msg @ [CHR 0x0A])\<rparr>"

text \<open>A handler that writes a JSON body and never calls \<^verbatim>\<open>WriteHeader\<close> answers 200.\<close>

definition json_response :: "(string \<times> string) list \<Rightarrow> response" where
  "json_response members =
     \<lparr>StatusCode = 200, Header = [(''Content-Type'', ''application/json'')], Body = Json members\<rparr>"

subsection \<open>The environment\<close>

text \<open>
  What the world outside the program decides: the outcome of \<^verbatim>\<open>net.Listen\<close>, of the
  two readiness probes at each attempt, of the client's dial, of the transport of a
  loop-back call, of an outgoing HTTP request, and the clock.
\<close>

record env =
  listen_result :: "error option"
  http_probe :: "nat \<Rightarrow> bool"
  grpc_probe :: "nat \<Rightarrow> bool"
  dial_result :: "error option"
  rpc_result :: "error option"
  http_get :: "string \<Rightarrow> error + response"
  now :: string

subsection \<open>Construction and initialization\<close>

definition NewUltraMultiplexer :: "string \<Rightarrow> UltraMultiplexer" where
  "NewUltraMultiplexer p =
     \<lparr>port = p, listener = None, mux = None, httpServer = None, grpcServer = None,
      httpClient = Some 10, grpcClient = None, grpcConn = None,
      mu = \<lparr>writer = False, readers = 0\<rparr>,
      serverReady = False, muxStarted = False, trace = []\<rparr>"

definition MatchWithWriters :: "matcher list \<Rightarrow> cmux \<Rightarrow> vlistener \<times> cmux" where
  "MatchWithWriters ms m = Match ms m"

text \<open>
  The mux is an object the struct refers to: the two registrations extend the object that
  \<^verbatim>\<open>cmux.New\<close> returned and the field holds the result.
\<close>

definition Initialize :: "env \<Rightarrow> UltraMultiplexer \<Rightarrow> error option \<times> UltraMultiplexer" where
  "Initialize e um =
     (case listen_result e of
        Some err \<Rightarrow> (Some (Errorf ''failed to create listener: '' err), um)
      | None \<Rightarrow>
          (let um = um\<lparr>listener := Some Open\<rparr>;
               m = cmux_New;
               (grpcListener, m) =
                  MatchWithWriters
                    [HTTP2MatchHeaderFieldSendSettings ''content-type'' ''application/grpc''] m;
               (httpListener, m) = Match [Any] m;
               um = um\<lparr>mux := Some m\<rparr>;
               um = um\<lparr>httpServer := Some Open\<rparr>;
               um = um\<lparr>grpcServer := Some Open\<rparr>;
               um = emit (Go (HTTP_Serve httpListener)) um;
               um = emit (Go (GRPC_Serve grpcListener)) um
           in (None, um)))"

subsection \<open>Starting\<close>

definition startMux :: "UltraMultiplexer \<Rightarrow> UltraMultiplexer" where
  "startMux um =
     (let um = Lock um in
      if muxStarted um then Unlock um
      else
        (let um = emit Set_muxStarted um;
             um = um\<lparr>muxStarted := True\<rparr>;
             um = Unlock um
         in emit (Go Mux_Serve) um))"

definition checkHTTPReady :: "env \<Rightarrow> nat \<Rightarrow> UltraMultiplexer \<Rightarrow> bool \<times> UltraMultiplexer" where
  "checkHTTPReady e attempts um =
     (let ok = http_probe e attempts in (ok, emit (HTTP_Probe attempts ok) um))"

definition checkGRPCReady :: "env \<Rightarrow> nat \<Rightarrow> UltraMultiplexer \<Rightarrow> bool \<times> UltraMultiplexer" where
  "checkGRPCReady e attempts um =
     (let ok = grpc_probe e attempts in (ok, emit (GRPC_Probe attempts ok) um))"

text \<open>
  The loop of \<^verbatim>\<open>waitForServerReady\<close>, from the value \<open>attempts\<close> of its counter on.
  \<^verbatim>\<open>time.Sleep(1 * time.Second)\<close> is the event \<open>Sleep 1\<close>.
\<close>

function waitLoop :: "env \<Rightarrow> nat \<Rightarrow> UltraMultiplexer \<Rightarrow> error option \<times> UltraMultiplexer" where
  "waitLoop e attempts um =
     (if attempts < 20 then
        (case checkHTTPReady e attempts um of
           (httpReady, um1) \<Rightarrow>
             if \<not> httpReady then waitLoop e (attempts + 1) (emit (Sleep 1) um1)
             else
               (case checkGRPCReady e attempts um1 of
                  (grpcReady, um2) \<Rightarrow>
                    if \<not> grpcReady then waitLoop e (attempts + 1) (emit (Sleep 1) um2)
                    else (None, um2)))
      else (Some (Error ''servers not ready after 20 attempts''), um))"
  by pat_completeness auto
termination
  by (relation "measure (\<lambda>(e, attempts, um). 20 - attempts)") auto

declare waitLoop.simps [simp del]

definition waitForServerReady :: "env \<Rightarrow> UltraMultiplexer \<Rightarrow> error option \<times> UltraMultiplexer" where
  "waitForServerReady e um = waitLoop e 0 um"

definition initGRPCClient :: "env \<Rightarrow> UltraMultiplexer \<Rightarrow> error option \<times> UltraMultiplexer" where
  "initGRPCClient e um =
     (case dial_result e of
        Some err \<Rightarrow>
          (Some (Errorf ''failed to connect gRPC client: '' err), emit (Dial_Client False) um)
      | None \<Rightarrow>
          (let um = emit (Dial_Client True) um;
               um = um\<lparr>grpcConn := Some Open\<rparr>;
               um = emit Set_grpcClient um;
               um = um\<lparr>grpcClient := Some (''localhost:'' @ port um)\<rparr>;
               um = emit Set_serverReady um;
               um = um\<lparr>serverReady := True\<rparr>
           in (None, um)))"

definition isGRPCClientReady :: "UltraMultiplexer \<Rightarrow> bool \<times> UltraMultiplexer" where
  "isGRPCClientReady um =
     (let um = RLock um;
          r = serverReady um;
          um = RUnlock um
      in (r, um))"

text \<open>
  \<^verbatim>\<open>Start\<close> returns only an error; after a successful start it blocks in
  \<^verbatim>\<open>select {}\<close> for ever.
\<close>

datatype start_result = Start_failed error | Start_blocks

definition Start :: "env \<Rightarrow> UltraMultiplexer \<Rightarrow> start_result \<times> UltraMultiplexer" where
  "Start e um =
     (let um = startMux um in
      case waitForServerReady e um of
        (Some err, um) \<Rightarrow> (Start_failed (Errorf ''servers not ready: '' err), um)
      | (None, um) \<Rightarrow>
          (case initGRPCClient e um of
             (Some err, um) \<Rightarrow> (Start_failed (Errorf ''failed to initialize gRPC client: '' err), um)
           | (None, um) \<Rightarrow> (Start_blocks, um)))"

subsection \<open>Stopping\<close>

definition Stop :: "UltraMultiplexer \<Rightarrow> error option \<times> UltraMultiplexer" where
  "Stop um =
     (let um = Lock um;
          um = (if grpcConn um \<noteq> None then (emit Close_grpcConn um)\<lparr>grpcConn := Some Closed\<rparr> else um);
          um = (if httpServer um \<noteq> None then (emit Close_httpServer um)\<lparr>httpServer := Some Closed\<rparr> else um);
          um = (if grpcServer um \<noteq> None then (emit Stop_grpcServer um)\<lparr>grpcServer := Some Closed\<rparr> else um);
          um = (if listener um \<noteq> None then (emit Close_listener um)\<lparr>listener := Some Closed\<rparr> else um);
          um = Unlock um
      in (None, um))"

subsection \<open>The program\<close>

text \<open>\<^verbatim>\<open>log.Fatalf\<close> prints the message and exits the process with status 1.\<close>

datatype exit = Fatal string | Serving

definition main :: "env \<Rightarrow> exit \<times> UltraMultiplexer" where
  "main e =
     (let multiplexer = NewUltraMultiplexer ''8080'' in
      case Initialize e multiplexer of
        (Some err, um) \<Rightarrow> (Fatal (''Failed to initialize: '' @ Error_msg err), um)
      | (None, um) \<Rightarrow>
          (case Start e um of
             (Start_failed err, um) \<Rightarrow> (Fatal (''Failed to start: '' @ Error_msg err), um)
           | (Start_blocks, um) \<Rightarrow> (Serving, um)))"

subsection \<open>The HTTP handler\<close>

text \<open>
  The loop-back call of \<^verbatim>\<open>grpcClient.SayHello\<close>: it fails on a closed connection and
  where the transport fails; otherwise the request reaches the program's own gRPC
  server, whose \<open>SayHello\<close> answers.
\<close>

definition client_SayHello :: "env \<Rightarrow> UltraMultiplexer \<Rightarrow> string \<Rightarrow> string \<times> error option" where
  "client_SayHello e um name =
     (if grpcConn um \<noteq> Some Open then ([], Some (Error ''grpc: the client connection is closing''))
      else case rpc_result e of Some err \<Rightarrow> ([], Some err) | None \<Rightarrow> SayHello name)"

text \<open>
  A handler's result is \<open>None\<close> where the Go code panics on a nil pointer
  (a nil \<^verbatim>\<open>grpcClient\<close> or \<^verbatim>\<open>httpClient\<close>).
\<close>

definition healthCheck :: "env \<Rightarrow> request \<Rightarrow> response" where
  "healthCheck e r =
     json_response [(''service'', ''ultra-multiplexer''), (''status'', ''ok''), (''timestamp'', now e)]"

definition proxyRequest :: "env \<Rightarrow> UltraMultiplexer \<Rightarrow> request \<Rightarrow> response option" where
  "proxyRequest e um r =
     (let target = Query_Get (Query r) ''target'' in
      if target = [] then Some (http_Error ''target parameter required'' 400)
      else
        (case httpClient um of
           None \<Rightarrow> None
         | Some timeout \<Rightarrow>
             (case http_get e target of
                Inl err \<Rightarrow> Some (http_Error (Error_msg err) 500)
              | Inr resp \<Rightarrow> Some resp)))"

definition callGRPC :: "env \<Rightarrow> UltraMultiplexer \<Rightarrow> request \<Rightarrow> response option \<times> UltraMultiplexer" where
  "callGRPC e um r =
     (case isGRPCClientReady um of
        (rdy, um) \<Rightarrow>
          if \<not> rdy then (Some (http_Error ''gRPC client not ready'' 503), um)
          else
            (let name = Query_Get (Query r) ''name'';
                 name = (if name = [] then ''World'' else name)
             in case grpcClient um of
                  None \<Rightarrow> (None, um)
                | Some target \<Rightarrow>
                    (let um = emit (Call_SayHello name) um in
                     case client_SayHello e um name of
                       (reply, Some err) \<Rightarrow>
                         (Some (http_Error (''gRPC call failed: '' @ Error_msg err) 500), um)
                     | (reply, None) \<Rightarrow>
                         (Some (json_response [(''grpc_response'', reply)]), um))))"

definition defaultHandler :: "request \<Rightarrow> response" where
  "defaultHandler r =
     json_response
       [(''message'', ''Ultra Multiplexer HTTP Server''), (''method'', Method r), (''path'', Path r)]"

definition ServeHTTP :: "env \<Rightarrow> UltraMultiplexer \<Rightarrow> request \<Rightarrow> response option \<times> UltraMultiplexer" where
  "ServeHTTP e um r =
     (if Path r = ''/health'' then (Some (healthCheck e r), um)
      else if Path r = ''/proxy'' then (proxyRequest e um r, um)
      else if Path r = ''/grpc-call'' then callGRPC e um r
      else (Some (defaultHandler r), um))"

subsection \<open>Vocabulary of the properties\<close>

text \<open>The entries a call has added to the record of effects.\<close>

definition new_entries :: "UltraMultiplexer \<Rightarrow> UltraMultiplexer \<Rightarrow> entry list" where
  "new_entries um um' = drop (length (trace um)) (trace um')"

text \<open>An attempt of the readiness wait passes when both probes answer.\<close>

definition attempt_passes :: "env \<Rightarrow> nat \<Rightarrow> bool" where
  "attempt_passes e i = (http_probe e i \<and> grpc_probe e i)"

text \<open>
  What an attempt that does not pass does: the HTTP probe, the gRPC probe only when the
  HTTP probe answered, and then one second of sleep.
\<close>

definition failed_attempt :: "env \<Rightarrow> nat \<Rightarrow> event list" where
  "failed_attempt e i =
     (if http_probe e i then [HTTP_Probe i True, GRPC_Probe i False, Sleep 1]
      else [HTTP_Probe i False, Sleep 1])"

fun is_http_probe :: "event \<Rightarrow> bool" where
  "is_http_probe (HTTP_Probe i ok) = True"
| "is_http_probe x = False"

fun is_close :: "event \<Rightarrow> bool" where
  "is_close Close_grpcConn = True"
| "is_close Close_httpServer = True"
| "is_close Stop_grpcServer = True"
| "is_close Close_listener = True"
| "is_close x = False"

fun is_flag_write :: "event \<Rightarrow> bool" where
  "is_flag_write Set_muxStarted = True"
| "is_flag_write Set_serverReady = True"
| "is_flag_write x = False"

text \<open>An entry respects the lock when it is no write of a readiness flag or the lock is held.\<close>

definition write_guarded :: "entry \<Rightarrow> bool" where
  "write_guarded x = (if is_flag_write (ev x) then held x else True)"

text \<open>The operations of the program on a multiplexer, to speak of all of them at once.\<close>

datatype operation =
    Op_Initialize
  | Op_startMux
  | Op_waitForServerReady
  | Op_initGRPCClient
  | Op_isGRPCClientReady
  | Op_Start
  | Op_Stop
  | Op_ServeHTTP request

fun run_op :: "env \<Rightarrow> UltraMultiplexer \<Rightarrow> operation \<Rightarrow> UltraMultiplexer" where
  "run_op e um Op_Initialize = snd (Initialize e um)"
| "run_op e um Op_startMux = startMux um"
| "run_op e um Op_waitForServerReady = snd (waitForServerReady e um)"
| "run_op e um Op_initGRPCClient = snd (initGRPCClient e um)"
| "run_op e um Op_isGRPCClientReady = snd (isGRPCClientReady um)"
| "run_op e um Op_Start = snd (Start e um)"
| "run_op e um Op_Stop = snd (Stop um)"
| "run_op e um (Op_ServeHTTP r) = snd (ServeHTTP e um r)"

text \<open>Two environments: one where everything answers, one where no probe ever does.\<close>

definition env_ready :: env where
  "env_ready =
     \<lparr>listen_result = None, http_probe = (\<lambda>i. True), grpc_probe = (\<lambda>i. True),
      dial_result = None, rpc_result = None,
      http_get = (\<lambda>u. Inl (Error ''no route'')), now = ''2024-01-01T00:00:00Z''\<rparr>"

definition env_never_ready :: env where
  "env_never_ready = env_ready\<lparr>http_probe := (\<lambda>i. False), grpc_probe := (\<lambda>i. False)\<rparr>"

text \<open>
  A third one: the HTTP probe answers from attempt 1 on, the gRPC probe from attempt 2 on.
\<close>

definition env_slow_start :: env where
  "env_slow_start = env_ready\<lparr>http_probe := (\<lambda>i. 0 < i), grpc_probe := (\<lambda>i. 1 < i)\<rparr>"

section \<open>Properties\<close>

subsection \<open>Basic facts about the record of effects\<close>

lemma emit_fields [simp]:
  "trace (emit x um) = trace um @ [stamp um x]"
  "serverReady (emit x um) = serverReady um"
  "muxStarted (emit x um) = muxStarted um"
  "mu (emit x um) = mu um"
  "listener (emit x um) = listener um"
  "mux (emit x um) = mux um"
  "httpServer (emit x um) = httpServer um"
  "grpcServer (emit x um) = grpcServer um"
  "grpcConn (emit x um) = grpcConn um"
  "grpcClient (emit x um) = grpcClient um"
  "httpClient (emit x um) = httpClient um"
  "port (emit x um) = port um"
  by (simp_all add: emit_def)

lemma stamp_emit [simp]: "stamp (emit x um) = stamp um"
  by (rule ext) (simp add: stamp_def)

lemma stamp_trace_update [simp]: "stamp (um\<lparr>trace := t\<rparr>) = stamp um"
  by (rule ext) (simp add: stamp_def)

lemma ev_stamp [simp]: "ev (stamp um x) = x"
  by (simp add: stamp_def)

lemma ev_o_stamp [simp]: "ev \<circ> stamp um = id"
  by (rule ext) simp

lemma map_ev_stamp [simp]: "map ev (map (stamp um) xs) = xs"
  by (induction xs) simp_all

lemma new_entries_append [simp]: "trace um' = trace um @ xs \<Longrightarrow> new_entries um um' = xs"
  by (simp add: new_entries_def)

subsection \<open>Each operation in closed form\<close>

lemma find_upt_first: "a < n \<Longrightarrow> P a \<Longrightarrow> find P [a..<n] = Some a"
  by (simp add: upt_conv_Cons)

lemma find_never: "(\<And>x. \<not> P x) \<Longrightarrow> find P xs = None"
  by (simp add: find_None_iff)

lemma startMux_cases:
  "startMux um =
     (if muxStarted um then um\<lparr>mu := (mu um)\<lparr>writer := False\<rparr>\<rparr>
      else um\<lparr>mu := (mu um)\<lparr>writer := False\<rparr>, muxStarted := True,
              trace := trace um @ [\<lparr>ev = Set_muxStarted, held = True, ready = serverReady um\<rparr>,
                                   \<lparr>ev = Go Mux_Serve, held = False, ready = serverReady um\<rparr>]\<rparr>)"
  by (simp add: startMux_def Lock_def Unlock_def emit_def stamp_def Let_def)

lemma isGRPCClientReady_eq [simp]: "isGRPCClientReady um = (serverReady um, um)"
  by (simp add: isGRPCClientReady_def RLock_def RUnlock_def Let_def)

lemma initGRPCClient_cases:
  "initGRPCClient e um =
     (case dial_result e of
        Some err \<Rightarrow> (Some (Errorf ''failed to connect gRPC client: '' err),
                     um\<lparr>trace := trace um @ [stamp um (Dial_Client False)]\<rparr>)
      | None \<Rightarrow> (None,
                 um\<lparr>grpcConn := Some Open, grpcClient := Some (''localhost:'' @ port um),
                    serverReady := True,
                    trace := trace um @ map (stamp um) [Dial_Client True, Set_grpcClient, Set_serverReady]\<rparr>))"
  by (simp add: initGRPCClient_def emit_def stamp_def Let_def split: option.splits)

lemma Initialize_cases:
  "Initialize e um =
     (case listen_result e of
        Some err \<Rightarrow> (Some (Errorf ''failed to create listener: '' err), um)
      | None \<Rightarrow> (None,
          um\<lparr>listener := Some Open,
             mux := Some \<lparr>sls = [([HTTP2MatchHeaderFieldSendSettings ''content-type'' ''application/grpc''], 0),
                                 ([Any], 1)]\<rparr>,
             httpServer := Some Open, grpcServer := Some Open,
             trace := trace um @ map (stamp um) [Go (HTTP_Serve 1), Go (GRPC_Serve 0)]\<rparr>))"
  by (simp add: Initialize_def MatchWithWriters_def Match_def cmux_New_def emit_def stamp_def Let_def
      split: option.splits)

lemma Stop_cases:
  "Stop um = (None,
     um\<lparr>grpcConn := map_option (\<lambda>_. Closed) (grpcConn um),
        httpServer := map_option (\<lambda>_. Closed) (httpServer um),
        grpcServer := map_option (\<lambda>_. Closed) (grpcServer um),
        listener := map_option (\<lambda>_. Closed) (listener um),
        mu := (mu um)\<lparr>writer := False\<rparr>,
        trace := trace um @ map (\<lambda>x. \<lparr>ev = x, held = True, ready = serverReady um\<rparr>)
           ((if grpcConn um \<noteq> None then [Close_grpcConn] else [])
            @ (if httpServer um \<noteq> None then [Close_httpServer] else [])
            @ (if grpcServer um \<noteq> None then [Stop_grpcServer] else [])
            @ (if listener um \<noteq> None then [Close_listener] else []))\<rparr>)"
  by (cases "grpcConn um"; cases "httpServer um"; cases "grpcServer um"; cases "listener um")
     (simp_all add: Stop_def Lock_def Unlock_def emit_def stamp_def Let_def)


subsection \<open>The readiness wait\<close>

text \<open>
  The loop from attempt \<open>a\<close> on: it stops at the first attempt from \<open>a\<close> below 20 that
  passes, having run every earlier attempt as a failed one, and it fails when there is
  none. The struct is changed in its record of effects only.
\<close>

lemma waitLoop_run:
  "waitLoop e a um =
     (case find (attempt_passes e) [a..<20] of
        None \<Rightarrow> (Some (Error ''servers not ready after 20 attempts''),
                 um\<lparr>trace := trace um @ map (stamp um) (concat (map (failed_attempt e) [a..<20]))\<rparr>)
      | Some i \<Rightarrow> (None,
                 um\<lparr>trace := trace um @ map (stamp um)
                   (concat (map (failed_attempt e) [a..<i]) @ [HTTP_Probe i True, GRPC_Probe i True])\<rparr>))"
proof (induction n \<equiv> "20 - a" arbitrary: a um)
  case 0
  then show ?case by (simp add: waitLoop.simps[of e a um])
next
  case (Suc n attempts um)
  then have lt: "attempts < 20" and n: "n = 20 - Suc attempts" by simp_all
  have upt: "[attempts..<20] = attempts # [Suc attempts..<20]"
    using lt by (simp add: upt_conv_Cons)
  show ?case
  proof (cases "attempt_passes e attempts")
    case True
    then show ?thesis using lt
      by (simp add: waitLoop.simps[of e attempts um] upt checkHTTPReady_def checkGRPCReady_def
          attempt_passes_def emit_def stamp_def)
  next
    case np: False
    let ?um' = "um\<lparr>trace := trace um @ map (stamp um) (failed_attempt e attempts)\<rparr>"
    have step: "waitLoop e attempts um = waitLoop e (Suc attempts) ?um'"
      using np lt
      by (auto simp add: waitLoop.simps[of e attempts um] checkHTTPReady_def checkGRPCReady_def
          attempt_passes_def failed_attempt_def emit_def stamp_def)
    have IH: "waitLoop e (Suc attempts) ?um' =
       (case find (attempt_passes e) [Suc attempts..<20] of
          None \<Rightarrow> (Some (Error ''servers not ready after 20 attempts''),
                   ?um'\<lparr>trace := trace ?um' @ map (stamp ?um')
                     (concat (map (failed_attempt e) [Suc attempts..<20]))\<rparr>)
        | Some i \<Rightarrow> (None,
                   ?um'\<lparr>trace := trace ?um' @ map (stamp ?um')
                     (concat (map (failed_attempt e) [Suc attempts..<i])
                      @ [HTTP_Probe i True, GRPC_Probe i True])\<rparr>))"
      by (rule Suc.hyps(1)[OF n])
    show ?thesis
    proof (cases "find (attempt_passes e) [Suc attempts..<20]")
      case None
      then show ?thesis using np by (simp add: step IH upt)
    next
      case (Some i)
      then have "i \<in> set [Suc attempts..<20]" by (auto simp: find_Some_iff)
      then have "[attempts..<i] = attempts # [Suc attempts..<i]" by (simp add: upt_conv_Cons)
      then show ?thesis using np Some by (simp add: step IH upt)
    qed
  qed
qed

lemma find_upt_Some:
  "find P [a..<n] = Some i \<Longrightarrow> a \<le> i \<and> i < n \<and> P i \<and> \<not> list_ex P [a..<i]"
proof -
  assume "find P [a..<n] = Some i"
  then obtain k where k: "k < length [a..<n]" "P ([a..<n] ! k)" "i = [a..<n] ! k"
    "\<forall>j<k. \<not> P ([a..<n] ! j)"
    by (auto simp: find_Some_iff)
  then have i: "i = a + k" "k < n - a" by simp_all
  have "\<not> P j" if "a \<le> j" "j < i" for j
  proof -
    have "j - a < k" using that i by arith
    then have "\<not> P ([a..<n] ! (j - a))" using k(4) by blast
    moreover have "[a..<n] ! (j - a) = j" using that i by simp
    ultimately show ?thesis by simp
  qed
  then show ?thesis using k i by (auto simp: list_ex_iff)
qed

lemma find_None_list_ex: "(find P xs = None) = (\<not> list_ex P xs)"
  by (auto simp: find_None_iff list_ex_iff)

lemma http_probes_failed_attempt [simp]:
  "length (filter is_http_probe (failed_attempt e i)) = 1"
  by (simp add: failed_attempt_def)

lemma http_probes_failed_attempts:
  "length (filter is_http_probe (concat (map (failed_attempt e) xs))) = length xs"
  by (induction xs) simp_all

text \<open>
  C6. The readiness wait makes at most 20 attempts. It succeeds exactly when one of the
  attempts 0 to 19 passes both probes, and then it stops at the first such attempt
  \<open>i\<close>: every attempt before \<open>i\<close> was run from its start (the HTTP probe, then the
  gRPC probe when the HTTP probe answered) and was followed by a sleep of one second, and
  attempt \<open>i\<close> is the HTTP probe followed by the gRPC probe, both answered. When no
  attempt passes, all 20 are run in that way and the error is returned. Nothing of the
  struct changes but the record of effects.
\<close>

theorem waitForServerReady_retry_budget:
  "(fst (waitForServerReady e um) = None) = list_ex (attempt_passes e) [0..<20]
   \<and> (case find (attempt_passes e) [0..<20] of
        None \<Rightarrow>
          fst (waitForServerReady e um) = Some (Error ''servers not ready after 20 attempts'')
          \<and> map ev (new_entries um (snd (waitForServerReady e um)))
              = concat (map (failed_attempt e) [0..<20])
      | Some i \<Rightarrow>
          i < 20 \<and> attempt_passes e i \<and> \<not> list_ex (attempt_passes e) [0..<i]
          \<and> fst (waitForServerReady e um) = None
          \<and> map ev (new_entries um (snd (waitForServerReady e um)))
              = concat (map (failed_attempt e) [0..<i]) @ [HTTP_Probe i True, GRPC_Probe i True])
   \<and> length (filter is_http_probe (map ev (new_entries um (snd (waitForServerReady e um))))) \<le> 20
   \<and> snd (waitForServerReady e um) = um\<lparr>trace := trace (snd (waitForServerReady e um))\<rparr>"
proof (cases "find (attempt_passes e) [0..<20]")
  case None
  then have "\<not> list_ex (attempt_passes e) [0..<20]"
    by (simp add: find_None_list_ex)
  then show ?thesis using None
    by (simp add: waitForServerReady_def waitLoop_run http_probes_failed_attempts)
next
  case (Some i)
  from find_upt_Some[OF Some]
  have i: "i < 20" "attempt_passes e i" "\<not> list_ex (attempt_passes e) [0..<i]" by simp_all
  have "list_ex (attempt_passes e) [0..<20]"
    using i by (auto simp: list_ex_iff)
  then show ?thesis using Some i
    by (simp add: waitForServerReady_def waitLoop_run http_probes_failed_attempts)
qed

lemma slow_start_third_attempt: "find (attempt_passes env_slow_start) [0..<20] = Some 2"
  by (simp add: upt_conv_Cons attempt_passes_def env_slow_start_def)

theorem waitForServerReady_retry_budget_witness:
  "fst (waitForServerReady env_slow_start (NewUltraMultiplexer ''8080'')) = None
   \<and> map ev (new_entries (NewUltraMultiplexer ''8080'')
        (snd (waitForServerReady env_slow_start (NewUltraMultiplexer ''8080''))))
      = [HTTP_Probe 0 False, Sleep 1,
         HTTP_Probe 1 True, GRPC_Probe 1 False, Sleep 1,
         HTTP_Probe 2 True, GRPC_Probe 2 True]"
  using waitForServerReady_retry_budget [of env_slow_start "NewUltraMultiplexer ''8080''"]
    slow_start_third_attempt
  by (simp add: upt_conv_Cons failed_attempt_def env_slow_start_def)

subsection \<open>The gRPC service\<close>

lemma DecodeRune_ascii: "b < 128 \<Longrightarrow> DecodeRune (b # bs) = (b, 1)"
  by (simp add: DecodeRune_def)

lemma runes_ascii_Cons: "b < 128 \<Longrightarrow> runes (b # bs) = b # runes bs"
  by (simp add: runes.simps(2) DecodeRune_ascii)

lemma runes_ascii_append:
  "list_all (\<lambda>b. b < 128) as \<Longrightarrow> runes (as @ bs) = as @ runes bs"
  by (induction as) (simp_all add: runes_ascii_Cons)

lemma EncodeRune_ascii: "r < 128 \<Longrightarrow> EncodeRune r = [r]"
  by (simp add: EncodeRune_def)

lemma unicode_ToUpper_ascii: "r < 128 \<Longrightarrow> unicode_ToUpper t r < 128"
  by (auto simp: unicode_ToUpper_def)

lemma upper_byte_code:
  "(of_char c :: nat) < 128 \<Longrightarrow> char_of (unicode_ToUpper t (of_char c)) = upper_byte c"
  by (simp add: unicode_ToUpper_def upper_byte_def)

lemma upper_ascii_bytes:
  "isASCII s \<Longrightarrow>
   map char_of (concat (map (\<lambda>r. EncodeRune (unicode_ToUpper t r)) (map of_char s :: nat list)))
     = map upper_byte s"
  by (induction s)
     (simp_all add: isASCII_def EncodeRune_ascii unicode_ToUpper_ascii upper_byte_code)

lemma uppercase_ascii_prefix:
  "isASCII s \<Longrightarrow> uppercase t (s @ u) = map upper_byte s @ uppercase t u"
proof -
  assume a: "isASCII s"
  then have "list_all (\<lambda>b. b < 128) (map of_char s :: nat list)"
    by (simp add: isASCII_def list_all_iff)
  then have r: "runes (map of_char s @ map of_char u) = map of_char s @ runes (map of_char u)"
    by (rule runes_ascii_append)
  show ?thesis
    by (simp only: uppercase_def map_append r concat_append upper_ascii_bytes[OF a])
qed

lemma uppercase_ascii: "isASCII s \<Longrightarrow> uppercase t s = map upper_byte s"
  using uppercase_ascii_prefix[of s t "[]"] by (simp add: uppercase_def runes.simps(1))

lemma upper_byte_id: "\<not> is_lower c \<Longrightarrow> upper_byte c = c"
  unfolding upper_byte_def is_lower_def by (simp only: if_False)

lemma no_lower_unchanged: "\<not> hasLower s \<Longrightarrow> map upper_byte s = s"
  by (induction s) (simp_all add: hasLower_def upper_byte_id is_lower_def)

lemma ToUpper_uppercase: "ToUpper t s = uppercase t s"
  by (simp add: ToUpper_def uppercase_ascii no_lower_unchanged)
     (simp add: strings_Map_def uppercase_def)


lemma upper_byte_not_lower: "\<not> is_lower (upper_byte c)"
proof (cases "is_lower c")
  case True
  then have r: "(97::nat) \<le> of_char c" "of_char c \<le> (122::nat)" by (simp_all add: is_lower_def)
  then have lt: "of_char c - (32::nat) < 256" by arith
  have "of_char (char_of (of_char c - (32::nat))) = (of_char c - (32::nat) :: nat)"
    using lt by simp
  moreover have "upper_byte c = char_of (of_char c - (32::nat))"
    using r by (simp add: upper_byte_def)
  ultimately have "(of_char (upper_byte c) :: nat) = of_char c - 32" by simp
  then show ?thesis using r unfolding is_lower_def by arith
next
  case False
  then show ?thesis by (simp add: upper_byte_id)
qed

lemma no_lower_after_upper: "\<not> hasLower (map upper_byte s)"
  using upper_byte_not_lower by (simp add: hasLower_def list_ex_iff is_lower_def)

text \<open>
  C8. For every input string, \<open>ProcessData\<close> succeeds (its error is nil) and the
  reply is the upper-case transformation of the input: the string in which every
  character is replaced by its upper-case form. For an input of ASCII bytes this is the
  input with each letter a to z replaced by its capital: it has the length of the input
  and no letter a to z. An ASCII prefix of any input is transformed in that way whatever
  follows it.
\<close>

theorem ProcessData_uppercase:
  "snd (ProcessData t data) = None
   \<and> fst (ProcessData t data) = uppercase t data
   \<and> (isASCII data \<longrightarrow>
        fst (ProcessData t data) = map upper_byte data
        \<and> length (fst (ProcessData t data)) = length data
        \<and> \<not> hasLower (fst (ProcessData t data)))
   \<and> (isASCII s \<longrightarrow>
        fst (ProcessData t (s @ data)) = map upper_byte s @ fst (ProcessData t data))"
  by (simp add: ProcessData_def ToUpper_uppercase uppercase_ascii uppercase_ascii_prefix
      no_lower_after_upper)

lemma upper_example: "map upper_byte ''Hello, world 42'' = ''HELLO, WORLD 42''"
  by code_simp

lemma ascii_example: "isASCII ''Hello, world 42''" "isASCII ''h''"
  by (simp_all add: isASCII_def)

lemma upper_h: "map upper_byte ''h'' = ''H''"
  by code_simp

lemma uppercase_e_acute_codes:
  "map of_char (uppercase table_excerpt [CHR 0xC3, CHR 0xA9]) = [0xC3, 0x89 :: nat]"
  by (simp add: uppercase_def runes.simps DecodeRune_def continuation_def EncodeRune_def
      unicode_ToUpper_def table_excerpt_def Let_def)

lemma uppercase_e_acute:
  "uppercase table_excerpt [CHR 0xC3, CHR 0xA9] = [CHR 0xC3, CHR 0x89]"
proof -
  have i: "inj (of_char :: char \<Rightarrow> nat)" by (simp add: inj_def)
  have "map (of_char :: char \<Rightarrow> nat) (uppercase table_excerpt [CHR 0xC3, CHR 0xA9])
        = map of_char [CHR 0xC3, CHR 0x89]"
    by (simp add: uppercase_e_acute_codes)
  then show ?thesis by (simp only: inj_map_eq_map[OF i])
qed

lemma uppercase_invalid_byte_codes:
  "map of_char (uppercase table_excerpt [CHR 0xFF, CHR 0x61]) = [0xEF, 0xBF, 0xBD, 0x41 :: nat]"
  by (simp add: uppercase_def runes.simps DecodeRune_def continuation_def EncodeRune_def
      unicode_ToUpper_def table_excerpt_def RuneError_def Let_def)

theorem ProcessData_uppercase_witness:
  "isASCII ''Hello, world 42''
   \<and> ProcessData table_excerpt ''Hello, world 42'' = (''HELLO, WORLD 42'', None)
   \<and> isASCII ''h''
   \<and> fst (ProcessData table_excerpt (''h'' @ [CHR 0xC3, CHR 0xA9])) = [CHR 0x48, CHR 0xC3, CHR 0x89]"
proof -
  have a: "fst (ProcessData table_excerpt ''Hello, world 42'') = map upper_byte ''Hello, world 42''"
    and n: "snd (ProcessData table_excerpt ''Hello, world 42'') = None"
    using ProcessData_uppercase [of table_excerpt "''Hello, world 42''" "[]"] ascii_example(1)
    by blast+
  have p: "fst (ProcessData table_excerpt (''h'' @ [CHR 0xC3, CHR 0xA9]))
           = map upper_byte ''h'' @ fst (ProcessData table_excerpt [CHR 0xC3, CHR 0xA9])"
    and e: "fst (ProcessData table_excerpt [CHR 0xC3, CHR 0xA9])
           = uppercase table_excerpt [CHR 0xC3, CHR 0xA9]"
    using ProcessData_uppercase [of table_excerpt "[CHR 0xC3, CHR 0xA9]" "''h''"] ascii_example(2)
    by blast+
  from a have a': "fst (ProcessData table_excerpt ''Hello, world 42'') = ''HELLO, WORLD 42''"
    by (simp only: upper_example)
  from p e have p': "fst (ProcessData table_excerpt (''h'' @ [CHR 0xC3, CHR 0xA9]))
                     = ''H'' @ [CHR 0xC3, CHR 0x89]"
    by (simp only: upper_h uppercase_e_acute)
  show ?thesis
    using a' n p' ascii_example by (simp add: prod_eq_iff)
qed

subsection \<open>Initialization\<close>

lemma catch_all_first_shadows:
  "classify [([Any], h), ([HTTP2MatchHeaderFieldSendSettings name v], g)] c = Some h"
  by simp

text \<open>
  C2. When the port can be bound, \<open>Initialize\<close> registers the gRPC matcher (HTTP/2
  with the header field \<open>content-type: application/grpc\<close>) first and the catch-all
  last, and hands the first virtual listener to the gRPC server and the second to the HTTP
  server. So a connection the gRPC matcher accepts is routed to the listener the gRPC
  server serves, and every other connection to the listener the HTTP server serves.
\<close>

theorem Initialize_matcher_order:
  "listen_result e = None \<Longrightarrow>
     fst (Initialize e um) = None
   \<and> (\<exists>m. mux (snd (Initialize e um)) = Some m
        \<and> sls m = [([HTTP2MatchHeaderFieldSendSettings ''content-type'' ''application/grpc''], 0),
                   ([Any], 1)]
        \<and> classify (sls m) c =
            Some (if http2_preface c
                     \<and> (''content-type'', ''application/grpc'') \<in> set (header_fields c)
                  then 0 else 1))
   \<and> map ev (new_entries um (snd (Initialize e um))) = [Go (HTTP_Serve 1), Go (GRPC_Serve 0)]"
  by (simp add: Initialize_cases)

theorem Initialize_matcher_order_witness:
  "listen_result env_ready = None
   \<and> mux (snd (Initialize env_ready (NewUltraMultiplexer ''8080''))) =
        Some \<lparr>sls = [([HTTP2MatchHeaderFieldSendSettings ''content-type'' ''application/grpc''], 0),
                     ([Any], 1)]\<rparr>
   \<and> classify [([HTTP2MatchHeaderFieldSendSettings ''content-type'' ''application/grpc''], 0), ([Any], 1)]
        \<lparr>http2_preface = True, header_fields = [('':method'', ''POST''), (''content-type'', ''application/grpc'')]\<rparr>
      = Some 0
   \<and> classify [([HTTP2MatchHeaderFieldSendSettings ''content-type'' ''application/grpc''], 0), ([Any], 1)]
        \<lparr>http2_preface = False, header_fields = []\<rparr>
      = Some 1"
proof -
  have h: "listen_result env_ready = None" by (simp add: env_ready_def)
  show ?thesis
    using h
      Initialize_matcher_order [OF h, of "NewUltraMultiplexer ''8080''"
        "\<lparr>http2_preface = True, header_fields = [('':method'', ''POST''), (''content-type'', ''application/grpc'')]\<rparr>"]
      Initialize_matcher_order [OF h, of "NewUltraMultiplexer ''8080''"
        "\<lparr>http2_preface = False, header_fields = []\<rparr>"]
    by auto
qed

subsection \<open>Stopping\<close>

text \<open>
  C7. \<open>Stop\<close> returns nil and closes, in this order, the loop-back client
  connection, the HTTP server, the gRPC server and the TCP listener (each one only when
  the field is not nil), and every component it has closed is closed afterwards. A second
  \<open>Stop\<close> returns nil again and changes no field of the struct: it calls the close
  operations once more on components that are closed already, and they stay closed.
\<close>

theorem Stop_order_idempotent:
  "fst (Stop um) = None
   \<and> map ev (new_entries um (snd (Stop um))) =
        (if grpcConn um \<noteq> None then [Close_grpcConn] else [])
        @ (if httpServer um \<noteq> None then [Close_httpServer] else [])
        @ (if grpcServer um \<noteq> None then [Stop_grpcServer] else [])
        @ (if listener um \<noteq> None then [Close_listener] else [])
   \<and> grpcConn (snd (Stop um)) = map_option (\<lambda>x. Closed) (grpcConn um)
   \<and> httpServer (snd (Stop um)) = map_option (\<lambda>x. Closed) (httpServer um)
   \<and> grpcServer (snd (Stop um)) = map_option (\<lambda>x. Closed) (grpcServer um)
   \<and> listener (snd (Stop um)) = map_option (\<lambda>x. Closed) (listener um)
   \<and> fst (Stop (snd (Stop um))) = None
   \<and> (snd (Stop (snd (Stop um))))\<lparr>trace := trace (snd (Stop um))\<rparr> = snd (Stop um)"
  by (simp add: Stop_cases o_def option.map_comp)

subsection \<open>Starting the mux\<close>

lemma startMux_started: "muxStarted (startMux um)"
  by (simp add: startMux_cases)

lemma startMux_again: "muxStarted um \<Longrightarrow> trace (startMux um) = trace um"
  by (simp add: startMux_cases)

lemma startMux_repeat:
  "muxStarted um \<Longrightarrow> muxStarted ((startMux ^^ n) um) \<and> trace ((startMux ^^ n) um) = trace um"
  by (induction n) (simp_all add: startMux_started startMux_again)

lemma waitForServerReady_frame:
  "snd (waitForServerReady e um) = um\<lparr>trace := trace (snd (waitForServerReady e um))\<rparr>"
  by (simp add: waitForServerReady_def waitLoop_run split: option.splits)

lemma waitForServerReady_muxStarted [simp]:
  "muxStarted (snd (waitForServerReady e um)) = muxStarted um"
  by (simp add: waitForServerReady_def waitLoop_run split: option.splits)

lemma Start_cases:
  "Start e um =
     (case find (attempt_passes e) [0..<20] of
        None \<Rightarrow>
          (Start_failed (Error ''servers not ready: servers not ready after 20 attempts''),
           (startMux um)\<lparr>trace := trace (startMux um) @ map (stamp (startMux um))
              (concat (map (failed_attempt e) [0..<20]))\<rparr>)
      | Some i \<Rightarrow>
          (case dial_result e of
             Some err \<Rightarrow>
               (Start_failed (Error (''failed to initialize gRPC client: failed to connect gRPC client: ''
                                      @ Error_msg err)),
                (startMux um)\<lparr>trace := trace (startMux um) @ map (stamp (startMux um))
                   (concat (map (failed_attempt e) [0..<i])
                    @ [HTTP_Probe i True, GRPC_Probe i True, Dial_Client False])\<rparr>)
           | None \<Rightarrow>
               (Start_blocks,
                (startMux um)\<lparr>grpcConn := Some Open,
                   grpcClient := Some (''localhost:'' @ port um),
                   serverReady := True,
                   trace := trace (startMux um) @ map (stamp (startMux um))
                     (concat (map (failed_attempt e) [0..<i])
                      @ [HTTP_Probe i True, GRPC_Probe i True, Dial_Client True, Set_grpcClient,
                         Set_serverReady])\<rparr>)))"
proof -
  have p: "port (startMux um) = port um" by (simp add: startMux_cases)
  show ?thesis
    by (cases "find (attempt_passes e) [0..<20]"; cases "dial_result e")
       (simp_all add: Start_def waitForServerReady_def waitLoop_run initGRPCClient_cases Errorf_def p Let_def)
qed

lemma Start_muxStarted: "muxStarted (snd (Start e um))"
  by (simp add: Start_cases startMux_started split: option.splits)

lemma callGRPC_muxStarted [simp]: "muxStarted (snd (callGRPC e um r)) = muxStarted um"
  by (simp add: callGRPC_def Let_def split: option.splits prod.splits)

lemma run_op_muxStarted: "muxStarted um \<Longrightarrow> muxStarted (run_op e um op)"
  by (cases op)
     (simp_all add: Initialize_cases startMux_started initGRPCClient_cases Start_muxStarted
        Stop_cases ServeHTTP_def split: option.splits)

lemma run_ops_muxStarted: "muxStarted um \<Longrightarrow> muxStarted (foldl (run_op e) um ops)"
  by (induction ops arbitrary: um) (simp_all add: run_op_muxStarted)

text \<open>
  C10. A call of \<open>startMux\<close> on a multiplexer whose \<open>muxStarted\<close> is false
  sets the flag and launches the accept loop of the mux exactly once; a call on a
  multiplexer whose flag is set changes nothing but releasing the lock; any number of
  further calls after the first adds no effect. No operation of the program resets the
  flag: once it is set it is set after every sequence of operations.
\<close>

theorem startMux_idempotent:
  "(if muxStarted um
    then startMux um = um\<lparr>mu := (mu um)\<lparr>writer := False\<rparr>\<rparr>
    else muxStarted (startMux um)
         \<and> map ev (new_entries um (startMux um)) = [Set_muxStarted, Go Mux_Serve])
   \<and> map ev (new_entries (startMux um) ((startMux ^^ n) (startMux um))) = []
   \<and> (muxStarted um \<longrightarrow> muxStarted (foldl (run_op e) um ops))"
proof -
  have "trace ((startMux ^^ n) (startMux um)) = trace (startMux um)"
    using startMux_repeat[OF startMux_started] by blast
  then show ?thesis
    by (simp add: run_ops_muxStarted new_entries_def) (simp add: startMux_cases)
qed

theorem startMux_idempotent_witness:
  "muxStarted (startMux (NewUltraMultiplexer ''8080''))
   \<and> startMux (startMux (NewUltraMultiplexer ''8080'')) = startMux (NewUltraMultiplexer ''8080'')
   \<and> muxStarted (foldl (run_op env_ready) (startMux (NewUltraMultiplexer ''8080''))
         [Op_Stop, Op_Initialize, Op_startMux, Op_Start])"
proof -
  have h: "muxStarted (startMux (NewUltraMultiplexer ''8080''))"
    by (simp add: startMux_cases NewUltraMultiplexer_def)
  show ?thesis
    using h startMux_idempotent [of "startMux (NewUltraMultiplexer ''8080'')" 0 env_ready
        "[Op_Stop, Op_Initialize, Op_startMux, Op_Start]"]
    by (simp add: startMux_cases NewUltraMultiplexer_def)
qed

subsection \<open>Startup and teardown\<close>

lemma stamp_fields [simp]:
  "ready (stamp um x) = serverReady um"
  "held (stamp um x) = writer (mu um)"
  by (simp_all add: stamp_def)

lemma startMux_fields [simp]:
  "serverReady (startMux um) = serverReady um"
  "listener (startMux um) = listener um"
  "mux (startMux um) = mux um"
  "httpServer (startMux um) = httpServer um"
  "grpcServer (startMux um) = grpcServer um"
  "grpcConn (startMux um) = grpcConn um"
  "grpcClient (startMux um) = grpcClient um"
  "port (startMux um) = port um"
  "writer (mu (startMux um)) = False"
  by (simp_all add: startMux_cases)

lemma startMux_trace:
  "trace (startMux um) =
     trace um @ (if muxStarted um then []
                 else [\<lparr>ev = Set_muxStarted, held = True, ready = serverReady um\<rparr>,
                       \<lparr>ev = Go Mux_Serve, held = False, ready = serverReady um\<rparr>])"
  by (simp add: startMux_cases)

lemma no_close_failed_attempts [simp]:
  "\<not> list_ex is_close (concat (map (failed_attempt e) xs))"
  by (induction xs) (simp_all add: failed_attempt_def)

lemma no_client_failed_attempt [simp]: "Set_grpcClient \<notin> set (failed_attempt e i)"
  by (simp add: failed_attempt_def)

lemma no_client_failed_attempts [simp]:
  "Set_grpcClient \<notin> set (concat (map (failed_attempt e) xs))"
  by (induction xs) (simp_all add: failed_attempt_def)

lemma callGRPC_not_ready:
  "\<not> serverReady s \<Longrightarrow> callGRPC e s r = (Some (http_Error ''gRPC client not ready'' 503), s)"
  by (simp add: callGRPC_def)

text \<open>
  C3, as the code has it. When none of the attempts 0 to 19 passes, \<open>Start\<close> returns
  the error \<open>servers not ready: servers not ready after 20 attempts\<close> and closes
  nothing: it records no close of any component, and the listener, the mux, the two
  servers and the client connection are as they were before the call. In the program,
  \<open>main\<close> then ends the process with \<^verbatim>\<open>log.Fatalf\<close> while the listener and both
  servers are still open; \<open>Stop\<close> is never called.
\<close>

theorem Start_not_ready_no_teardown:
  "\<not> list_ex (attempt_passes e) [0..<20] \<Longrightarrow>
     fst (Start e um) = Start_failed (Error ''servers not ready: servers not ready after 20 attempts'')
   \<and> \<not> list_ex is_close (map ev (new_entries um (snd (Start e um))))
   \<and> listener (snd (Start e um)) = listener um
   \<and> mux (snd (Start e um)) = mux um
   \<and> httpServer (snd (Start e um)) = httpServer um
   \<and> grpcServer (snd (Start e um)) = grpcServer um
   \<and> grpcConn (snd (Start e um)) = grpcConn um
   \<and> (listen_result e = None \<longrightarrow>
        fst (main e) = Fatal ''Failed to start: servers not ready: servers not ready after 20 attempts''
        \<and> listener (snd (main e)) = Some Open
        \<and> httpServer (snd (main e)) = Some Open
        \<and> grpcServer (snd (main e)) = Some Open
        \<and> \<not> list_ex is_close (map ev (trace (snd (main e)))))"
proof -
  assume "\<not> list_ex (attempt_passes e) [0..<20]"
  then have f: "find (attempt_passes e) [0..<20] = None" by (simp add: find_None_list_ex)
  have a: "fst (Start e um) = Start_failed (Error ''servers not ready: servers not ready after 20 attempts'')"
    by (simp add: Start_cases f)
  have b: "\<not> list_ex is_close (map ev (new_entries um (snd (Start e um))))"
    by (simp add: Start_cases f new_entries_def startMux_trace)
  have c: "listener (snd (Start e um)) = listener um" "mux (snd (Start e um)) = mux um"
    "httpServer (snd (Start e um)) = httpServer um" "grpcServer (snd (Start e um)) = grpcServer um"
    "grpcConn (snd (Start e um)) = grpcConn um"
    by (simp_all add: Start_cases f)
  have d: "fst (main e) = Fatal ''Failed to start: servers not ready: servers not ready after 20 attempts''
        \<and> listener (snd (main e)) = Some Open
        \<and> httpServer (snd (main e)) = Some Open
        \<and> grpcServer (snd (main e)) = Some Open
        \<and> \<not> list_ex is_close (map ev (trace (snd (main e))))" if "listen_result e = None"
    using that
    by (simp add: main_def Initialize_cases Start_cases f NewUltraMultiplexer_def startMux_trace Let_def)
  show ?thesis using a b c d by blast
qed


lemma never_ready_no_pass: "\<not> list_ex (attempt_passes env_never_ready) [0..<20]"
  by (simp add: list_ex_iff attempt_passes_def env_never_ready_def)

lemma never_ready_listens: "listen_result env_never_ready = None"
  by (simp add: env_never_ready_def env_ready_def)

lemma ready_first_attempt: "find (attempt_passes env_ready) [0..<20] = Some 0"
  by (rule find_upt_first) (simp_all add: attempt_passes_def env_ready_def)

lemma ready_env_fields [simp]:
  "listen_result env_ready = None" "dial_result env_ready = None" "rpc_result env_ready = None"
  by (simp_all add: env_ready_def)

lemma main_never_ready:
  "main env_never_ready =
     (Fatal ''Failed to start: servers not ready: servers not ready after 20 attempts'',
      snd (Start env_never_ready (snd (Initialize env_never_ready (NewUltraMultiplexer ''8080'')))))"
proof -
  have f: "find (attempt_passes env_never_ready) [0..<20] = None"
    using never_ready_no_pass by (simp add: find_None_list_ex)
  show ?thesis
    by (simp add: main_def Initialize_cases never_ready_listens Start_cases f Let_def)
qed

theorem Start_not_ready_no_teardown_witness:
  "\<not> list_ex (attempt_passes env_never_ready) [0..<20]
   \<and> listen_result env_never_ready = None
   \<and> fst (Start env_never_ready (NewUltraMultiplexer ''8080'')) =
        Start_failed (Error ''servers not ready: servers not ready after 20 attempts'')
   \<and> listener (snd (main env_never_ready)) = Some Open"
  using Start_not_ready_no_teardown [OF never_ready_no_pass, of "NewUltraMultiplexer ''8080''"]
    never_ready_no_pass never_ready_listens
  by simp

text \<open>
  C3 as stated fails in the environment where no probe ever answers: the readiness wait
  exhausts its budget and the program ends with the fatal error, but the listener, the
  HTTP server, the gRPC server and the mux are still open at that point and no close was
  ever issued.
\<close>

theorem not_ready_teardown_counterexample:
  "fst (waitForServerReady env_never_ready
          (startMux (snd (Initialize env_never_ready (NewUltraMultiplexer ''8080'')))))
     = Some (Error ''servers not ready after 20 attempts'')
   \<and> fst (main env_never_ready)
     = Fatal ''Failed to start: servers not ready: servers not ready after 20 attempts''
   \<and> listener (snd (main env_never_ready)) = Some Open
   \<and> httpServer (snd (main env_never_ready)) = Some Open
   \<and> grpcServer (snd (main env_never_ready)) = Some Open
   \<and> mux (snd (main env_never_ready)) \<noteq> None
   \<and> \<not> list_ex is_close (map ev (trace (snd (main env_never_ready))))"
proof -
  have f: "find (attempt_passes env_never_ready) [0..<20] = None"
    using never_ready_no_pass by (simp add: find_None_list_ex)
  have w: "fst (waitForServerReady env_never_ready
          (startMux (snd (Initialize env_never_ready (NewUltraMultiplexer ''8080'')))))
     = Some (Error ''servers not ready after 20 attempts'')"
    by (simp add: waitForServerReady_def waitLoop_run f)
  show ?thesis
    using w
    by (simp add: main_never_ready Start_cases f Initialize_cases never_ready_listens
        NewUltraMultiplexer_def startMux_trace)
qed

subsection \<open>The lock discipline\<close>

lemma main_ready_trace:
  "main env_ready =
     (Serving,
      \<lparr>port = ''8080'', listener = Some Open,
       mux = Some \<lparr>sls = [([HTTP2MatchHeaderFieldSendSettings ''content-type'' ''application/grpc''], 0),
                          ([Any], 1)]\<rparr>,
       httpServer = Some Open, grpcServer = Some Open, httpClient = Some 10,
       grpcClient = Some ''localhost:8080'', grpcConn = Some Open,
       mu = \<lparr>writer = False, readers = 0\<rparr>, serverReady = True, muxStarted = True,
       trace =
         [\<lparr>ev = Go (HTTP_Serve 1), held = False, ready = False\<rparr>,
          \<lparr>ev = Go (GRPC_Serve 0), held = False, ready = False\<rparr>,
          \<lparr>ev = Set_muxStarted, held = True, ready = False\<rparr>,
          \<lparr>ev = Go Mux_Serve, held = False, ready = False\<rparr>,
          \<lparr>ev = HTTP_Probe 0 True, held = False, ready = False\<rparr>,
          \<lparr>ev = GRPC_Probe 0 True, held = False, ready = False\<rparr>,
          \<lparr>ev = Dial_Client True, held = False, ready = False\<rparr>,
          \<lparr>ev = Set_grpcClient, held = False, ready = False\<rparr>,
          \<lparr>ev = Set_serverReady, held = False, ready = False\<rparr>]\<rparr>)"
  by (simp add: main_def Initialize_cases Start_cases ready_first_attempt NewUltraMultiplexer_def
      startMux_cases stamp_def Let_def)

text \<open>
  C4. The run of the program in the environment where everything answers, written out:
  the write of \<^verbatim>\<open>muxStarted\<close> in \<open>startMux\<close> happens with the lock held, the
  write of \<^verbatim>\<open>serverReady\<close> in \<open>initGRPCClient\<close> happens with the lock free. So
  not every write of a readiness flag is guarded.
\<close>

theorem serverReady_written_without_lock:
  "fst (main env_ready) = Serving
   \<and> trace (snd (main env_ready)) =
         [\<lparr>ev = Go (HTTP_Serve 1), held = False, ready = False\<rparr>,
          \<lparr>ev = Go (GRPC_Serve 0), held = False, ready = False\<rparr>,
          \<lparr>ev = Set_muxStarted, held = True, ready = False\<rparr>,
          \<lparr>ev = Go Mux_Serve, held = False, ready = False\<rparr>,
          \<lparr>ev = HTTP_Probe 0 True, held = False, ready = False\<rparr>,
          \<lparr>ev = GRPC_Probe 0 True, held = False, ready = False\<rparr>,
          \<lparr>ev = Dial_Client True, held = False, ready = False\<rparr>,
          \<lparr>ev = Set_grpcClient, held = False, ready = False\<rparr>,
          \<lparr>ev = Set_serverReady, held = False, ready = False\<rparr>]
   \<and> write_guarded \<lparr>ev = Set_muxStarted, held = True, ready = False\<rparr>
   \<and> \<not> write_guarded \<lparr>ev = Set_serverReady, held = False, ready = False\<rparr>
   \<and> \<not> list_all write_guarded (trace (snd (main env_ready)))"
  by (simp add: main_ready_trace write_guarded_def)


subsection \<open>The loop-back client\<close>

lemma list_all_not_ready_stamp:
  "\<not> serverReady um \<Longrightarrow> list_all (\<lambda>x. \<not> ready x) (map (stamp um) xs)"
  by (simp add: list_all_iff)

text \<open>
  C5. In a run of \<open>Start\<close> from a multiplexer whose client-ready flag is false, the
  flag is false at every recorded point of the run (the last of them is the write that
  sets it), and in the states between the steps of \<open>Start\<close>. The loop-back client
  is constructed in exactly the runs that reach the end of \<open>Start\<close>, and then the
  construction comes directly after an attempt \<open>i\<close> below 20 whose HTTP probe and
  then gRPC probe both answered, and after the dial succeeded. When no attempt passes, or
  the dial fails, no client is constructed and the flag stays false. A call of the handler
  in any state whose flag is false answers 503 at once and leaves the state as it was.
\<close>

theorem Start_client_after_readiness:
  "\<not> serverReady um \<Longrightarrow>
     list_all (\<lambda>x. \<not> ready x) (new_entries um (snd (Start e um)))
   \<and> \<not> serverReady (startMux um)
   \<and> \<not> serverReady (snd (waitForServerReady e (startMux um)))
   \<and> serverReady (snd (Start e um)) = (fst (Start e um) = Start_blocks)
   \<and> (Set_grpcClient \<in> set (map ev (new_entries um (snd (Start e um)))))
        = (fst (Start e um) = Start_blocks)
   \<and> grpcClient (snd (Start e um)) =
        (if fst (Start e um) = Start_blocks then Some (''localhost:'' @ port um) else grpcClient um)
   \<and> (case find (attempt_passes e) [0..<20] of
        None \<Rightarrow>
          fst (Start e um) \<noteq> Start_blocks
          \<and> map ev (new_entries um (snd (Start e um))) =
              (if muxStarted um then [] else [Set_muxStarted, Go Mux_Serve])
              @ concat (map (failed_attempt e) [0..<20])
      | Some i \<Rightarrow>
          i < 20 \<and> http_probe e i \<and> grpc_probe e i
          \<and> map ev (new_entries um (snd (Start e um))) =
              (if muxStarted um then [] else [Set_muxStarted, Go Mux_Serve])
              @ concat (map (failed_attempt e) [0..<i])
              @ [HTTP_Probe i True, GRPC_Probe i True]
              @ (if dial_result e = None then [Dial_Client True, Set_grpcClient, Set_serverReady]
                 else [Dial_Client False]))
   \<and> (\<not> serverReady s \<longrightarrow>
        callGRPC e' s r = (Some (http_Error ''gRPC client not ready'' 503), s))"
proof -
  assume nr: "\<not> serverReady um"
  have tr: "trace (startMux um) = trace um @ map (stamp (Lock um)) (if muxStarted um then [] else [Set_muxStarted])
        @ map (stamp (startMux um)) (if muxStarted um then [] else [Go Mux_Serve])"
    by (simp add: startMux_trace stamp_def Lock_def)
  have nl: "\<not> serverReady (Lock um)" using nr by (simp add: Lock_def)
  have ns: "\<not> serverReady (startMux um)" using nr by simp
  have c3: "\<not> serverReady (snd (waitForServerReady e (startMux um)))"
    using nr by (simp add: waitForServerReady_def waitLoop_run split: option.splits)
  have c8: "\<not> serverReady s \<longrightarrow>
        callGRPC e' s r = (Some (http_Error ''gRPC client not ready'' 503), s)"
    by (simp add: callGRPC_not_ready)
  show ?thesis
  proof (cases "find (attempt_passes e) [0..<20]")
    case None
    then show ?thesis using nr c3 c8
      by (simp add: Start_cases new_entries_def tr list_all_not_ready_stamp[OF nl]
          list_all_not_ready_stamp[OF ns])
  next
    case (Some i)
    from find_upt_Some[OF Some] have i: "i < 20" "http_probe e i" "grpc_probe e i"
      by (simp_all add: attempt_passes_def)
    show ?thesis
    proof (cases "dial_result e")
      case None
      then show ?thesis using nr c3 c8 Some i
        by (simp add: Start_cases new_entries_def tr list_all_not_ready_stamp[OF nl]
            list_all_not_ready_stamp[OF ns])
    next
      case (Some err)
      then show ?thesis using nr c3 c8 \<open>find (attempt_passes e) [0..<20] = Some i\<close> i
        by (simp add: Start_cases new_entries_def tr list_all_not_ready_stamp[OF nl]
            list_all_not_ready_stamp[OF ns])
    qed
  qed
qed


theorem Start_client_after_readiness_witness:
  "\<not> serverReady (snd (Initialize env_ready (NewUltraMultiplexer ''8080'')))
   \<and> fst (Start env_ready (snd (Initialize env_ready (NewUltraMultiplexer ''8080'')))) = Start_blocks
   \<and> serverReady (snd (Start env_ready (snd (Initialize env_ready (NewUltraMultiplexer ''8080'')))))
   \<and> map ev (new_entries (snd (Initialize env_ready (NewUltraMultiplexer ''8080'')))
        (snd (Start env_ready (snd (Initialize env_ready (NewUltraMultiplexer ''8080''))))))
      = [Set_muxStarted, Go Mux_Serve, HTTP_Probe 0 True, GRPC_Probe 0 True,
         Dial_Client True, Set_grpcClient, Set_serverReady]
   \<and> fst (callGRPC env_ready (snd (Initialize env_ready (NewUltraMultiplexer ''8080'')))
        \<lparr>Method = ''GET'', Path = ''/grpc-call'', Query = [(''name'', ''Ann'')]\<rparr>)
      = Some (http_Error ''gRPC client not ready'' 503)"
proof -
  have h: "\<not> serverReady (snd (Initialize env_ready (NewUltraMultiplexer ''8080'')))"
    by (simp add: Initialize_cases NewUltraMultiplexer_def)
  have m: "\<not> muxStarted (snd (Initialize env_ready (NewUltraMultiplexer ''8080'')))"
    by (simp add: Initialize_cases NewUltraMultiplexer_def)
  have b: "fst (Start env_ready (snd (Initialize env_ready (NewUltraMultiplexer ''8080'')))) = Start_blocks"
    by (simp add: Start_cases ready_first_attempt)
  show ?thesis
    using h m b ready_first_attempt
      Start_client_after_readiness [OF h, of env_ready
        "snd (Initialize env_ready (NewUltraMultiplexer ''8080''))" env_ready
        "\<lparr>Method = ''GET'', Path = ''/grpc-call'', Query = [(''name'', ''Ann'')]\<rparr>"]
    by simp
qed

subsection \<open>The handler of /grpc-call\<close>

lemma client_SayHello_emit [simp]: "client_SayHello e (emit x um) n = client_SayHello e um n"
  by (simp add: client_SayHello_def)

lemma callGRPC_cases:
  "callGRPC e um r =
     (if \<not> serverReady um then (Some (http_Error ''gRPC client not ready'' 503), um)
      else case grpcClient um of
             None \<Rightarrow> (None, um)
           | Some target \<Rightarrow>
               (case snd (client_SayHello e um
                       (if Query_Get (Query r) ''name'' = [] then ''World''
                        else Query_Get (Query r) ''name'')) of
                  Some err \<Rightarrow> Some (http_Error (''gRPC call failed: '' @ Error_msg err) 500)
                | None \<Rightarrow>
                    Some (json_response
                      [(''grpc_response'',
                        ''Hello '' @ (if Query_Get (Query r) ''name'' = [] then ''World''
                                      else Query_Get (Query r) ''name'')
                        @ '' from Ultra Multiplexer!'')]),
                emit (Call_SayHello (if Query_Get (Query r) ''name'' = [] then ''World''
                                     else Query_Get (Query r) ''name'')) um))"
  by (simp add: callGRPC_def client_SayHello_def SayHello_def Let_def
      split: option.splits prod.splits)

text \<open>
  In every state the program reaches from a new multiplexer, a set client-ready flag
  comes with a client: the flag is written after the client, and nothing unsets either.
\<close>

lemma run_op_client_invariant:
  "(serverReady um \<longrightarrow> grpcClient um \<noteq> None) \<Longrightarrow>
   (serverReady (run_op e um op) \<longrightarrow> grpcClient (run_op e um op) \<noteq> None)"
proof (cases op)
  case Op_waitForServerReady
  assume "serverReady um \<longrightarrow> grpcClient um \<noteq> None"
  then show ?thesis using Op_waitForServerReady
    by (simp add: waitForServerReady_def waitLoop_run split: option.splits)
next
  case Op_Start
  assume "serverReady um \<longrightarrow> grpcClient um \<noteq> None"
  then show ?thesis using Op_Start
    by (simp add: Start_cases split: option.splits)
next
  case (Op_ServeHTTP r)
  assume "serverReady um \<longrightarrow> grpcClient um \<noteq> None"
  then show ?thesis using Op_ServeHTTP
    by (auto simp: ServeHTTP_def callGRPC_cases split: option.splits)
qed (simp_all add: Initialize_cases initGRPCClient_cases Stop_cases split: option.splits)

lemma run_ops_client_invariant:
  "(serverReady um \<longrightarrow> grpcClient um \<noteq> None) \<Longrightarrow>
   (serverReady (foldl (run_op e) um ops) \<longrightarrow> grpcClient (foldl (run_op e) um ops) \<noteq> None)"
proof (induction ops arbitrary: um)
  case Nil
  then show ?case by simp
next
  case (Cons op ops)
  from run_op_client_invariant[OF Cons.prems]
  have "serverReady (run_op e um op) \<longrightarrow> grpcClient (run_op e um op) \<noteq> None" .
  from Cons.IH[OF this] show ?case by simp
qed

lemma reachable_client_invariant:
  "serverReady (foldl (run_op e) (NewUltraMultiplexer p) ops)
   \<longrightarrow> grpcClient (foldl (run_op e) (NewUltraMultiplexer p) ops) \<noteq> None"
  by (rule run_ops_client_invariant) (simp add: NewUltraMultiplexer_def)

text \<open>
  C1, amended. For a request to \<^verbatim>\<open>/grpc-call\<close>, in a state where a set client-ready
  flag comes with a client (every state the program reaches): when the flag is false the
  answer is 503; when it is set and the loop-back call fails the answer is 500; otherwise
  the answer is 200 with the JSON object whose member \<open>grpc_response\<close> is
  \<open>Hello n from Ultra Multiplexer!\<close>, where \<open>n\<close> is the \<open>name\<close> query
  parameter, or \<open>World\<close> when that parameter is absent or empty.
\<close>

theorem callGRPC_responses:
  "Path r = ''/grpc-call'' \<Longrightarrow>
   (serverReady um \<longrightarrow> grpcClient um \<noteq> None) \<Longrightarrow>
   n = (if Query_Get (Query r) ''name'' = [] then ''World'' else Query_Get (Query r) ''name'') \<Longrightarrow>
     (\<not> serverReady um \<longrightarrow>
        fst (ServeHTTP e um r) = Some (http_Error ''gRPC client not ready'' 503)
        \<and> map_option StatusCode (fst (ServeHTTP e um r)) = Some 503)
   \<and> (serverReady um \<and> snd (client_SayHello e um n) \<noteq> None \<longrightarrow>
        map_option StatusCode (fst (ServeHTTP e um r)) = Some 500)
   \<and> (serverReady um \<and> snd (client_SayHello e um n) = None \<longrightarrow>
        fst (ServeHTTP e um r) =
          Some (json_response [(''grpc_response'', ''Hello '' @ n @ '' from Ultra Multiplexer!'')])
        \<and> map_option StatusCode (fst (ServeHTTP e um r)) = Some 200)"
  by (auto simp: ServeHTTP_def callGRPC_cases http_Error_def json_response_def
      split: option.splits)


lemma main_ready_fields [simp]:
  "serverReady (snd (main env_ready))"
  "grpcClient (snd (main env_ready)) = Some ''localhost:8080''"
  "grpcConn (snd (main env_ready)) = Some Open"
  by (simp_all add: main_ready_trace)

lemma client_SayHello_ready [simp]:
  "client_SayHello env_ready (snd (main env_ready)) n = SayHello n"
  by (simp add: client_SayHello_def)

theorem callGRPC_responses_witness:
  "fst (ServeHTTP env_ready (snd (main env_ready))
         \<lparr>Method = ''GET'', Path = ''/grpc-call'', Query = [(''name'', ''Ann'')]\<rparr>)
     = Some \<lparr>StatusCode = 200, Header = [(''Content-Type'', ''application/json'')],
             Body = Json [(''grpc_response'', ''Hello Ann from Ultra Multiplexer!'')]\<rparr>
   \<and> map_option StatusCode
        (fst (ServeHTTP env_ready (NewUltraMultiplexer ''8080'')
           \<lparr>Method = ''GET'', Path = ''/grpc-call'', Query = [(''name'', ''Ann'')]\<rparr>)) = Some 503
   \<and> map_option StatusCode
        (fst (ServeHTTP (env_ready\<lparr>rpc_result := Some (Error ''rpc error: code = Unavailable'')\<rparr>)
           (snd (main env_ready))
           \<lparr>Method = ''GET'', Path = ''/grpc-call'', Query = [(''name'', ''Ann'')]\<rparr>)) = Some 500"
proof -
  let ?r = "\<lparr>Method = ''GET'', Path = ''/grpc-call'', Query = [(''name'', ''Ann'')]\<rparr>"
  let ?bad = "env_ready\<lparr>rpc_result := Some (Error ''rpc error: code = Unavailable'')\<rparr>"
  have p: "Path ?r = ''/grpc-call''" by simp
  have n: "''Ann'' = (if Query_Get (Query ?r) ''name'' = [] then ''World''
                       else Query_Get (Query ?r) ''name'')"
    by (simp add: Query_Get_def)
  have i1: "serverReady (snd (main env_ready)) \<longrightarrow> grpcClient (snd (main env_ready)) \<noteq> None"
    by simp
  have i0: "serverReady (NewUltraMultiplexer ''8080'') \<longrightarrow> grpcClient (NewUltraMultiplexer ''8080'') \<noteq> None"
    by (simp add: NewUltraMultiplexer_def)
  have nr: "\<not> serverReady (NewUltraMultiplexer ''8080'')"
    by (simp add: NewUltraMultiplexer_def)
  have ok: "snd (client_SayHello env_ready (snd (main env_ready)) ''Ann'') = None"
    by (simp add: SayHello_def)
  have bad: "snd (client_SayHello ?bad (snd (main env_ready)) ''Ann'') \<noteq> None"
    by (simp add: client_SayHello_def)
  show ?thesis
    using callGRPC_responses [OF p i1 n, of env_ready]
      callGRPC_responses [OF p i0 n, of env_ready]
      callGRPC_responses [OF p i1 n, of ?bad]
      nr ok bad
    by (auto simp: json_response_def http_Error_def)
qed

text \<open>
  C1 as stated fails for the request \<^verbatim>\<open>/grpc-call?name=\<close>, whose \<open>name\<close>
  parameter is the empty string: after full readiness the greeting is for \<open>World\<close>,
  not for the value of the parameter.
\<close>

theorem callGRPC_empty_name_counterexample:
  "Query_Get (Query \<lparr>Method = ''GET'', Path = ''/grpc-call'', Query = [(''name'', [])]\<rparr>) ''name'' = []
   \<and> fst (ServeHTTP env_ready (snd (main env_ready))
            \<lparr>Method = ''GET'', Path = ''/grpc-call'', Query = [(''name'', [])]\<rparr>)
       = Some (json_response [(''grpc_response'', ''Hello World from Ultra Multiplexer!'')])
   \<and> fst (ServeHTTP env_ready (snd (main env_ready))
            \<lparr>Method = ''GET'', Path = ''/grpc-call'', Query = [(''name'', [])]\<rparr>)
       \<noteq> Some (json_response
            [(''grpc_response'',
              ''Hello ''
              @ Query_Get (Query \<lparr>Method = ''GET'', Path = ''/grpc-call'', Query = [(''name'', [])]\<rparr>) ''name''
              @ '' from Ultra Multiplexer!'')])"
  by (simp add: ServeHTTP_def callGRPC_cases Query_Get_def SayHello_def json_response_def)

text \<open>
  C9. For a request to \<^verbatim>\<open>/grpc-call\<close> whose \<open>name\<close> parameter is absent or
  empty, with the client ready and the loop-back call succeeding, the handler calls
  \<open>SayHello\<close> with the name \<open>World\<close> and answers 200 with
  \<open>Hello World from Ultra Multiplexer!\<close>.
\<close>

theorem callGRPC_default_name:
  "Path r = ''/grpc-call'' \<Longrightarrow>
   map_of (Query r) ''name'' = None \<or> map_of (Query r) ''name'' = Some [] \<Longrightarrow>
   serverReady um \<Longrightarrow> grpcClient um \<noteq> None \<Longrightarrow>
   snd (client_SayHello e um ''World'') = None \<Longrightarrow>
     fst (ServeHTTP e um r) =
       Some (json_response [(''grpc_response'', ''Hello World from Ultra Multiplexer!'')])
   \<and> map_option StatusCode (fst (ServeHTTP e um r)) = Some 200
   \<and> map ev (new_entries um (snd (ServeHTTP e um r))) = [Call_SayHello ''World'']"
proof -
  assume a: "Path r = ''/grpc-call''"
    "map_of (Query r) ''name'' = None \<or> map_of (Query r) ''name'' = Some []"
    "serverReady um" "grpcClient um \<noteq> None" "snd (client_SayHello e um ''World'') = None"
  from a(2) have q: "Query_Get (Query r) ''name'' = []"
    by (auto simp: Query_Get_def)
  show ?thesis using a(1,3,4,5) q
    by (auto simp: ServeHTTP_def callGRPC_cases json_response_def new_entries_def)
qed

theorem callGRPC_default_name_witness:
  "fst (ServeHTTP env_ready (snd (main env_ready))
         \<lparr>Method = ''GET'', Path = ''/grpc-call'', Query = []\<rparr>)
     = Some (json_response [(''grpc_response'', ''Hello World from Ultra Multiplexer!'')])
   \<and> fst (ServeHTTP env_ready (snd (main env_ready))
         \<lparr>Method = ''GET'', Path = ''/grpc-call'', Query = [(''name'', [])]\<rparr>)
     = Some (json_response [(''grpc_response'', ''Hello World from Ultra Multiplexer!'')])"
proof -
  let ?r0 = "\<lparr>Method = ''GET'', Path = ''/grpc-call'', Query = []\<rparr>"
  let ?r1 = "\<lparr>Method = ''GET'', Path = ''/grpc-call'', Query = [(''name'', [])]\<rparr>"
  have p0: "Path ?r0 = ''/grpc-call''" and p1: "Path ?r1 = ''/grpc-call''" by simp_all
  have q0: "map_of (Query ?r0) ''name'' = None \<or> map_of (Query ?r0) ''name'' = Some []" by simp
  have q1: "map_of (Query ?r1) ''name'' = None \<or> map_of (Query ?r1) ''name'' = Some []" by simp
  have s: "serverReady (snd (main env_ready))" by simp
  have c: "grpcClient (snd (main env_ready)) \<noteq> None" by simp
  have ok: "snd (client_SayHello env_ready (snd (main env_ready)) ''World'') = None"
    by (simp add: SayHello_def)
  show ?thesis
    using callGRPC_default_name [OF p0 q0 s c ok] callGRPC_default_name [OF p1 q1 s c ok]
    by simp
qed

subsection \<open>Stopping a started system\<close>

theorem Stop_order_idempotent_witness:
  "map ev (new_entries (snd (main env_ready)) (snd (Stop (snd (main env_ready)))))
     = [Close_grpcConn, Close_httpServer, Stop_grpcServer, Close_listener]
   \<and> listener (snd (Stop (snd (main env_ready)))) = Some Closed
   \<and> listener (snd (Stop (snd (Stop (snd (main env_ready)))))) = Some Closed
   \<and> fst (Stop (snd (Stop (snd (main env_ready))))) = None"
proof -
  have f: "grpcConn (snd (main env_ready)) = Some Open" "httpServer (snd (main env_ready)) = Some Open"
    "grpcServer (snd (main env_ready)) = Some Open" "listener (snd (main env_ready)) = Some Open"
    by (simp_all add: main_ready_trace)
  show ?thesis
    using Stop_order_idempotent [of "snd (main env_ready)"]
      Stop_order_idempotent [of "snd (Stop (snd (main env_ready)))"] f
    by simp
qed

end
